theory Spec2Isabelle
  imports Main "HOL-Library.AList"
begin

section \<open>The command-line wallet of kc.js\<close>

text \<open>
  kc.js keeps one wallet object per process: it is read from wallet.json when the
  module is loaded (or created when the file is missing), one command runs on it, and
  the commands that change it write it back. The model threads a state holding the
  wallet in memory, the contents of wallet.json and the lines printed on the console.

  Everything kc.js imports is a parameter of the model, collected in an environment:
  bip39 and hdkey are external libraries, keychain.js and cipher.js are modules whose
  source is not part of the files verified here. A call that can throw returns a sum,
  with \<open>Inl\<close> for the exception. The first three errors are JavaScript's own; the
  others are the error kinds that section 7 of the specification lists.
  \<open>keychain_resolveDid\<close> stands for \<^verbatim>\<open>keychain.resolveDid\<close> followed by the
  \<^verbatim>\<open>JSON.parse\<close> that kc.js applies to its result, and \<open>HDKey_fromMnemonic\<close> for
  \<^verbatim>\<open>mnemonicToSeedSync\<close>, \<^verbatim>\<open>fromMasterSeed\<close> and \<^verbatim>\<open>toJSON\<close>. Writing
  wallet.json is taken to succeed.

  JavaScript numbers are modelled as natural numbers: counter, account and index are
  only ever set to 0 or incremented by one, which is exact below \<open>2 ^ 53\<close>.
\<close>

type_synonym did = string

datatype error =
    ReferenceError string
  | TypeError string
  | LibraryError string
  | DecryptionFailed
  | TamperedCiphertext
  | NoCurrentId
  | NameTaken string
  | NoSuchId string
  | InvalidInput
  | InvalidVC
  | RegistryUnavailable

definition bind_result :: "error + 'a \<Rightarrow> ('a \<Rightarrow> error + 'b) \<Rightarrow> error + 'b" where
  "bind_result r f = (case r of Inl e \<Rightarrow> Inl e | Inr x \<Rightarrow> f x)"

text \<open>The derivation path \<^verbatim>\<open>m/44'/0'/${account}'/0/${index}\<close>, kept as its two numbers.\<close>

datatype path = Path nat nat

record hdkey_json =
  xpriv :: string
  xpub :: string

record seed =
  mnemonic :: string
  hdkey :: hdkey_json

text \<open>
  A resolved DID document, as far as kc.js reads it:
  \<^verbatim>\<open>doc.didDocument.verificationMethod[i].publicKeyJwk\<close> is the i-th element of
  \<open>verificationMethod\<close>.
\<close>

record 'k diddoc =
  didDocument_id :: did
  verificationMethod :: "'k list"

record 'k keypair =
  publicJwk :: 'k
  privateJwk :: 'k

text \<open>The object \<^verbatim>\<open>didobj\<close> that createId stores under the identity's name.\<close>

record 'k identity =
  did :: did
  doc :: "'k diddoc"
  account :: nat
  index :: nat

text \<open>
  The wallet object. A JavaScript object used as a dictionary is an association list of
  its own properties in insertion order. \<open>current\<close> is absent from a wallet that
  initializeWallet has just built, and kc.js never reads or writes \<open>names\<close>: the field
  is there because loadWallet returns whatever wallet.json holds, and JSON.stringify
  writes it back unchanged.
\<close>

record 'k wallet =
  seed :: seed
  counter :: nat
  ids :: "(string \<times> 'k identity) list"
  current :: "string option"
  names :: "(string \<times> did) list option"

record ('sk, 'k, 'c) env =
  bip39_generateMnemonic :: string
  HDKey_fromMnemonic :: "string \<Rightarrow> hdkey_json"
  HDKey_derive :: "hdkey_json \<Rightarrow> path \<Rightarrow> error + 'sk"
  cipher_generateJwk :: "'sk \<Rightarrow> error + 'k keypair"
  global_generateJwk :: "('sk \<Rightarrow> error + 'k keypair) option"
  keychain_generateDid :: "'k \<Rightarrow> error + did"
  keychain_resolveDid :: "did \<Rightarrow> error + 'k diddoc"
  cipher_encryptMessage :: "'k \<Rightarrow> 'k \<Rightarrow> string \<Rightarrow> error + 'c"
  cipher_decryptMessage :: "'k \<Rightarrow> 'k \<Rightarrow> 'c \<Rightarrow> error + string"

text \<open>
  A console line is a string, or a string with a ciphertext spliced in (the ciphertext
  is an opaque value of the cipher module).
\<close>

datatype 'c line = Line string | CipherLine string 'c string

record ('k, 'c) state =
  wallet :: "'k wallet"
  wallet_json :: "'k wallet option"
  console :: "'c line list"

definition console_log :: "'c line \<Rightarrow> ('k, 'c) state \<Rightarrow> ('k, 'c) state" where
  "console_log l s = s\<lparr>console := console s @ [l]\<rparr>"

subsection \<open>Objects as dictionaries\<close>

text \<open>
  \<^verbatim>\<open>obj.hasOwnProperty(name)\<close> looks the method up on the object first: an own
  property called hasOwnProperty (here always a stored object, never a function)
  shadows the inherited method and the call throws.
\<close>

definition hasOwnProperty :: "(string \<times> 'v) list \<Rightarrow> string \<Rightarrow> error + bool" where
  "hasOwnProperty obj name =
     (if map_of obj ''hasOwnProperty'' \<noteq> None
      then Inl (TypeError ''hasOwnProperty is not a function'')
      else Inr (map_of obj name \<noteq> None))"

text \<open>
  \<^verbatim>\<open>obj[name] = value\<close> with an object value: the name \<^verbatim>\<open>__proto__\<close> reaches the
  setter inherited from Object.prototype, which replaces the prototype and adds no own
  property; any other name is stored in place or appended.
\<close>

definition set_property :: "(string \<times> 'v) list \<Rightarrow> string \<Rightarrow> 'v \<Rightarrow> (string \<times> 'v) list" where
  "set_property obj name v =
     (if name = ''__proto__'' then obj else AList.update name v obj)"

text \<open>
  \<^verbatim>\<open>!wallet.current\<close>: true when the property is absent or the empty string.
\<close>

definition no_current :: "'k wallet \<Rightarrow> bool" where
  "no_current w = (case current w of None \<Rightarrow> True | Some n \<Rightarrow> n = [])"

text \<open>
  Object.keys lists the canonical array indices in ascending numeric order and then the
  other keys in insertion order.
\<close>

definition digit_value :: "char \<Rightarrow> nat option" where
  "digit_value c =
     (let n = of_char c :: nat in if 48 \<le> n \<and> n \<le> 57 then Some (n - 48) else None)"

definition array_index :: "string \<Rightarrow> nat option" where
  "array_index s =
     (if s = [] \<or> (\<exists>c \<in> set s. digit_value c = None) \<or> (1 < length s \<and> hd s = CHR ''0'')
      then None
      else (let n = foldl (\<lambda>a c. 10 * a + the (digit_value c)) 0 s
            in if n < 4294967295 then Some n else None))"

definition Object_keys :: "(string \<times> 'v) list \<Rightarrow> string list" where
  "Object_keys obj =
     (let ks = map fst obj
      in sort_key (\<lambda>k. the (array_index k)) (filter (\<lambda>k. array_index k \<noteq> None) ks)
         @ filter (\<lambda>k. array_index k = None) ks)"

subsection \<open>Loading, saving and creating the wallet\<close>

definition loadWallet :: "'k wallet option \<Rightarrow> 'k wallet option" where
  "loadWallet file = (case file of Some w \<Rightarrow> Some w | None \<Rightarrow> None)"

definition saveWallet :: "'k wallet \<Rightarrow> 'k wallet option" where
  "saveWallet w = Some w"

text \<open>
  initializeWallet returns the text \<^verbatim>\<open>Wallet already initialized\<close> when wallet.json
  exists, and otherwise builds the wallet, saves it and returns it. The result is paired
  with the new contents of the file.
\<close>

definition initializeWallet ::
  "('sk, 'k, 'c) env \<Rightarrow> 'k wallet option \<Rightarrow> (string + 'k wallet) \<times> 'k wallet option" where
  "initializeWallet env file =
     (if file \<noteq> None then (Inl ''Wallet already initialized'', file)
      else
        (let m = bip39_generateMnemonic env;
             hk = HDKey_fromMnemonic env m;
             w = \<lparr>seed = \<lparr>mnemonic = m, hdkey = hk\<rparr>, counter = 0, ids = [],
                  current = None, names = None\<rparr>
         in (Inr w, saveWallet w)))"



text \<open>
  \<^verbatim>\<open>const wallet = loadWallet() || initializeWallet()\<close>, run when the module is loaded.
  The state starts with an empty console.
\<close>

definition startup :: "('sk, 'k, 'c) env \<Rightarrow> 'k wallet option \<Rightarrow> string + ('k, 'c) state" where
  "startup env file =
     (case loadWallet file of
        Some w \<Rightarrow> Inr \<lparr>wallet = w, wallet_json = file, console = []\<rparr>
      | None \<Rightarrow>
          (case initializeWallet env file of
             (Inl msg, _) \<Rightarrow> Inl msg
           | (Inr w, file') \<Rightarrow> Inr \<lparr>wallet = w, wallet_json = file', console = []\<rparr>))"

subsection \<open>The commands\<close>

text \<open>
  A command returns what the JavaScript function returns (\<open>Inr None\<close> for undefined,
  \<open>Inr (Some s)\<close> for a string, \<open>Inl e\<close> when it throws or its promise is rejected)
  together with the state it leaves.

  In createId the key pair comes from a call of the free identifier
  \<^verbatim>\<open>generateJwk\<close>: kc.js neither declares nor imports it (encrypt and decrypt call
  \<^verbatim>\<open>cipher.generateJwk\<close>), so the call resolves in the global scope and throws a
  ReferenceError unless the host defines such a global.
\<close>

definition createId_did ::
  "('sk, 'k, 'c) env \<Rightarrow> 'k wallet \<Rightarrow> error + (did \<times> 'k diddoc)" where
  "createId_did env w =
     bind_result (HDKey_derive env (hdkey (seed w)) (Path (counter w) 0)) (\<lambda>didkey.
     bind_result (case global_generateJwk env of
                    None \<Rightarrow> Inl (ReferenceError ''generateJwk is not defined'')
                  | Some generateJwk \<Rightarrow> generateJwk didkey) (\<lambda>keypair.
     bind_result (keychain_generateDid env (publicJwk keypair)) (\<lambda>d.
     bind_result (keychain_resolveDid env d) (\<lambda>dc. Inr (d, dc)))))"

definition createId ::
  "('sk, 'k, 'c) env \<Rightarrow> string \<Rightarrow> ('k, 'c) state \<Rightarrow> (error + string option) \<times> ('k, 'c) state" where
  "createId env name s =
     (let w = wallet s in
      case hasOwnProperty (ids w) name of
        Inl e \<Rightarrow> (Inl e, s)
      | Inr True \<Rightarrow> (Inr (Some (''Already have an ID named '' @ name)), s)
      | Inr False \<Rightarrow>
          (case createId_did env w of
             Inl e \<Rightarrow> (Inl e, s)
           | Inr (d, dc) \<Rightarrow>
               (let didobj = \<lparr>did = d, doc = dc, account = counter w, index = 0\<rparr>;
                    w' = w\<lparr>ids := set_property (ids w) name didobj,
                           counter := counter w + 1,
                           current := Some name\<rparr>
                in (Inr None,
                    console_log (Line d) (s\<lparr>wallet := w', wallet_json := saveWallet w'\<rparr>)))))"

definition listIds :: "('k, 'c) state \<Rightarrow> ('k, 'c) state" where
  "listIds s =
     foldl (\<lambda>s' i. console_log
                     (Line (if Some i = current (wallet s) then i @ ''  <<< current'' else i)) s')
       s (Object_keys (ids (wallet s)))"

definition useId ::
  "string \<Rightarrow> ('k, 'c) state \<Rightarrow> (error + string option) \<times> ('k, 'c) state" where
  "useId name s =
     (case hasOwnProperty (ids (wallet s)) name of
        Inl e \<Rightarrow> (Inl e, s)
      | Inr True \<Rightarrow>
          (let w' = (wallet s)\<lparr>current := Some name\<rparr>
           in (Inr None, listIds (s\<lparr>wallet := w', wallet_json := saveWallet w'\<rparr>)))
      | Inr False \<Rightarrow> (Inr None, console_log (Line (''No ID named '' @ name)) s))"

text \<open>
  Lines 105 to 112 of encrypt and 126 to 133 of decrypt are the same: the current
  identity's key pair at its own \<open>(account, index)\<close> and the public key of the first
  verification method of the other party's document. Reading a current name that is not
  a key of \<open>ids\<close> gives undefined, and the property access on it throws (for a name
  that Object.prototype defines, it is the derivation of a path without numbers that
  throws). An absent \<open>current\<close> would be read as the key \<^verbatim>\<open>undefined\<close>.
\<close>

definition current_keys ::
  "('sk, 'k, 'c) env \<Rightarrow> 'k wallet \<Rightarrow> did \<Rightarrow> error + ('k keypair \<times> 'k)" where
  "current_keys env w d =
     bind_result (case map_of (ids w) (case current w of None \<Rightarrow> ''undefined'' | Some n \<Rightarrow> n) of
                    None \<Rightarrow> Inl (TypeError ''Cannot read properties of undefined'')
                  | Some i \<Rightarrow> Inr i) (\<lambda>i.
     bind_result (HDKey_derive env (hdkey (seed w)) (Path (account i) (index i))) (\<lambda>didkey.
     bind_result (cipher_generateJwk env didkey) (\<lambda>keypair.
     bind_result (keychain_resolveDid env d) (\<lambda>dc.
     bind_result (case verificationMethod dc of
                    [] \<Rightarrow> Inl (TypeError ''Cannot read properties of undefined'')
                  | k # _ \<Rightarrow> Inr k) (\<lambda>pub. Inr (keypair, pub))))))"

definition encrypt ::
  "('sk, 'k, 'c) env \<Rightarrow> string \<Rightarrow> did \<Rightarrow> ('k, 'c) state
     \<Rightarrow> (error + string option) \<times> ('k, 'c) state" where
  "encrypt env msg d s =
     (let s1 = console_log (Line (''encrypt '' @ [CHR 0x22] @ msg @ [CHR 0x22] @ '' for '' @ d)) s
      in if no_current (wallet s1) then (Inr None, console_log (Line ''No current ID'') s1)
         else
           (case bind_result (current_keys env (wallet s1) d) (\<lambda>(keypair, pub).
                   cipher_encryptMessage env pub (privateJwk keypair) msg) of
              Inl e \<Rightarrow> (Inl e, s1)
            | Inr ciphertext \<Rightarrow> (Inr None, console_log (CipherLine [] ciphertext []) s1)))"

definition decrypt ::
  "('sk, 'k, 'c) env \<Rightarrow> 'c \<Rightarrow> did \<Rightarrow> ('k, 'c) state
     \<Rightarrow> (error + string option) \<times> ('k, 'c) state" where
  "decrypt env msg d s =
     (let s1 = console_log (CipherLine (''decrypt '' @ [CHR 0x22]) msg ([CHR 0x22] @ '' from '' @ d)) s
      in if no_current (wallet s1) then (Inr None, console_log (Line ''No current ID'') s1)
         else
           (case bind_result (current_keys env (wallet s1) d) (\<lambda>(keypair, pub).
                   cipher_decryptMessage env pub (privateJwk keypair) msg) of
              Inl e \<Rightarrow> (Inl e, s1)
            | Inr plaintext \<Rightarrow> (Inr None, console_log (Line plaintext) s1)))"

subsection \<open>A symbolic cipher module\<close>

text \<open>
  Modelled from the spec: cipher.js, whose source is missing. The specification (4.A)
  gives \<^verbatim>\<open>deriveKeypair\<close> (a secp256k1 pair per derivation path),
  \<^verbatim>\<open>encryptMessage(pubJwkReceiver, privJwkSender, plaintext)\<close> (a shared secret by
  ECDH, then an AEAD) and \<^verbatim>\<open>decryptMessage(pubJwkOther, privJwkSelf, ciphertext)\<close>,
  its inverse, which fails with DecryptionFailed on a MAC mismatch. Here a private key is
  named by the extended key and the path it is derived from, the shared secret of two
  keys is the unordered pair of them, and a ciphertext opens exactly under the secret it
  was sealed with. The random nonce of the AEAD is left out. The plaintext is a string
  for kc.js; the type is left open for the JSON texts of the later sections.
\<close>

datatype skey = SKey string path

datatype jwk = PublicJwk skey | PrivateJwk skey

datatype 'p ciphertext = Sealed "skey set" 'p

definition derive_skey :: "hdkey_json \<Rightarrow> path \<Rightarrow> error + skey" where
  "derive_skey hk p = Inr (SKey (xpriv hk) p)"

definition generateJwk :: "skey \<Rightarrow> error + jwk keypair" where
  "generateJwk k = Inr \<lparr>publicJwk = PublicJwk k, privateJwk = PrivateJwk k\<rparr>"

definition shared_secret :: "jwk \<Rightarrow> jwk \<Rightarrow> error + skey set" where
  "shared_secret pub priv =
     (case (pub, priv) of
        (PublicJwk a, PrivateJwk b) \<Rightarrow> Inr {a, b}
      | _ \<Rightarrow> Inl (LibraryError ''invalid key''))"

definition encryptMessage :: "jwk \<Rightarrow> jwk \<Rightarrow> 'p \<Rightarrow> error + 'p ciphertext" where
  "encryptMessage pub priv msg =
     bind_result (shared_secret pub priv) (\<lambda>k. Inr (Sealed k msg))"

definition decryptMessage :: "jwk \<Rightarrow> jwk \<Rightarrow> 'p ciphertext \<Rightarrow> error + 'p" where
  "decryptMessage pub priv c =
     bind_result (shared_secret pub priv) (\<lambda>k.
       case c of Sealed k' msg \<Rightarrow> if k' = k then Inr msg else Inl DecryptionFailed)"

text \<open>
  An environment for kc.js built on the symbolic cipher. The registry behind
  keychain.js is a table from DIDs to documents; generateDid answers with the DID whose
  document lists exactly the given key. As in a Node process, no global
  \<^verbatim>\<open>generateJwk\<close> exists.
\<close>

definition test_mnemonic :: string where
  "test_mnemonic = ''legal winner thank year wave sausage worth useful legal winner thank yellow''"

definition node_env :: "(did \<times> jwk diddoc) list \<Rightarrow> (skey, jwk, string ciphertext) env" where
  "node_env registry =
     \<lparr>bip39_generateMnemonic = test_mnemonic,
      HDKey_fromMnemonic = (\<lambda>m. \<lparr>xpriv = ''xprv/'' @ m, xpub = ''xpub/'' @ m\<rparr>),
      HDKey_derive = derive_skey,
      cipher_generateJwk = generateJwk,
      global_generateJwk = None,
      keychain_generateDid =
        (\<lambda>k. case find (\<lambda>(d, dc). verificationMethod dc = [k]) registry of
                None \<Rightarrow> Inl (LibraryError ''registry'')
              | Some (d, dc) \<Rightarrow> Inr d),
      keychain_resolveDid =
        (\<lambda>d. case map_of registry d of
                None \<Rightarrow> Inl (LibraryError ''unknown DID'')
              | Some dc \<Rightarrow> Inr dc),
      cipher_encryptMessage = encryptMessage,
      cipher_decryptMessage = decryptMessage\<rparr>"

text \<open>The same with a host that does define a global \<^verbatim>\<open>generateJwk\<close>.\<close>

definition host_env :: "(did \<times> jwk diddoc) list \<Rightarrow> (skey, jwk, string ciphertext) env" where
  "host_env registry = (node_env registry)\<lparr>global_generateJwk := Some generateJwk\<rparr>"

text \<open>
  A wallet with two identities, as the wallet of the tests has them: Alice on account 0
  and Bob on account 1, Bob's key index being \<open>n\<close>, with the registry that lists their
  current public keys.
\<close>

definition test_seed :: seed where
  "test_seed = \<lparr>mnemonic = test_mnemonic,
                 hdkey = \<lparr>xpriv = ''xprv/'' @ test_mnemonic, xpub = ''xpub/'' @ test_mnemonic\<rparr>\<rparr>"

definition test_key :: "nat \<Rightarrow> nat \<Rightarrow> skey" where
  "test_key a i = SKey (''xprv/'' @ test_mnemonic) (Path a i)"

definition alice_doc :: "jwk diddoc" where
  "alice_doc = \<lparr>didDocument_id = ''did:mdip:alice'',
                 verificationMethod = [PublicJwk (test_key 0 0)]\<rparr>"

definition bob_doc :: "nat \<Rightarrow> jwk diddoc" where
  "bob_doc n = \<lparr>didDocument_id = ''did:mdip:bob'',
                 verificationMethod = [PublicJwk (test_key 1 n)]\<rparr>"

definition test_registry :: "nat \<Rightarrow> (did \<times> jwk diddoc) list" where
  "test_registry n = [(''did:mdip:alice'', alice_doc), (''did:mdip:bob'', bob_doc n)]"

definition test_wallet :: "string option \<Rightarrow> nat \<Rightarrow> jwk wallet" where
  "test_wallet cur n =
     \<lparr>seed = test_seed, counter = 2,
      ids = [(''Alice'', \<lparr>did = ''did:mdip:alice'', doc = alice_doc, account = 0, index = 0\<rparr>),
             (''Bob'', \<lparr>did = ''did:mdip:bob'', doc = bob_doc 0, account = 1, index = n\<rparr>)],
      current = cur, names = None\<rparr>"

definition test_state :: "string option \<Rightarrow> nat \<Rightarrow> (jwk, string ciphertext) state" where
  "test_state cur n =
     \<lparr>wallet = test_wallet cur n, wallet_json = Some (test_wallet cur n), console = []\<rparr>"

subsection \<open>Reachable states and the account invariant\<close>

text \<open>
  The states a wallet goes through: it is created when kc.js first starts without a
  wallet.json, every later process starts from the file, and each process runs one
  command.
\<close>

inductive reachable :: "('sk, 'k, 'c) env \<Rightarrow> ('k, 'c) state \<Rightarrow> bool"
  for env :: "('sk, 'k, 'c) env" where
  created: "startup env None = Inr s \<Longrightarrow> reachable env s"
| restarted: "reachable env s \<Longrightarrow> startup env (wallet_json s) = Inr s' \<Longrightarrow> reachable env s'"
| did_createId: "reachable env s \<Longrightarrow> reachable env (snd (createId env name s))"
| did_listIds: "reachable env s \<Longrightarrow> reachable env (listIds s)"
| did_useId: "reachable env s \<Longrightarrow> reachable env (snd (useId name s))"
| did_encrypt: "reachable env s \<Longrightarrow> reachable env (snd (encrypt env msg d s))"
| did_decrypt: "reachable env s \<Longrightarrow> reachable env (snd (decrypt env c d s))"

definition account_below_counter :: "'k wallet \<Rightarrow> bool" where
  "account_below_counter w = (\<forall>(n, i) \<in> set (ids w). account i < counter w)"

definition state_ok :: "('k, 'c) state \<Rightarrow> bool" where
  "state_ok s =
     (account_below_counter (wallet s)
      \<and> (case wallet_json s of None \<Rightarrow> True | Some w \<Rightarrow> account_below_counter w))"

text \<open>The state in which kc.js finds itself when it first starts without a wallet.json.\<close>

definition fresh_wallet :: "jwk wallet" where
  "fresh_wallet = \<lparr>seed = test_seed, counter = 0, ids = [], current = None, names = None\<rparr>"

definition fresh_state :: "(jwk, string ciphertext) state" where
  "fresh_state = \<lparr>wallet = fresh_wallet, wallet_json = Some fresh_wallet, console = []\<rparr>"


section \<open>The keymaster operations, from the specification\<close>

text \<open>
  Modelled from the spec: keymaster.js, gatekeeper.js and cipher.js are missing from the
  sources (the tests of keymaster are there). The definitions of this section follow
  sections 3, 4.A, 4.C, 4.D and 4.E of the specification, operation by operation.

  Time is an input: an operation that stamps or signs takes the current time. A DID is
  the name the gatekeeper gives to a create operation, by its content hash. JSON values
  are typed: a signable object is a body with an optional \<open>signature\<close> member, and the
  text that \<^verbatim>\<open>canonicalize\<close> gives for a value is represented by the value itself, so that
  two values have the same canonical text exactly when they are equal. As for the
  cipher above, hashes and signatures are symbolic: SHA-256 has no collisions and a
  signature verifies under the key pair that made it, on the hash it was made for.
\<close>

type_synonym time = nat

datatype 'a canonical = Canonical 'a

datatype 'a digest = SHA256 'a

datatype 'h sigvalue = ECDSA 'h skey

definition canonicalize :: "'a \<Rightarrow> 'a canonical" where
  "canonicalize x = Canonical x"

definition hashMessage :: "'a \<Rightarrow> 'a digest" where
  "hashMessage s = SHA256 s"

definition signHash :: "'h \<Rightarrow> jwk \<Rightarrow> error + 'h sigvalue" where
  "signHash h priv =
     (case priv of PrivateJwk k \<Rightarrow> Inr (ECDSA h k)
      | PublicJwk _ \<Rightarrow> Inl (LibraryError ''invalid key''))"

definition verifySig :: "'h \<Rightarrow> 'h sigvalue \<Rightarrow> jwk \<Rightarrow> bool" where
  "verifySig h v pub = (case pub of PublicJwk k \<Rightarrow> v = ECDSA h k | PrivateJwk _ \<Rightarrow> False)"

definition deriveKeypair :: "hdkey_json \<Rightarrow> nat \<Rightarrow> nat \<Rightarrow> jwk keypair" where
  "deriveKeypair hk a i =
     \<lparr>publicJwk = PublicJwk (SKey (xpriv hk) (Path a i)),
      privateJwk = PrivateJwk (SKey (xpriv hk) (Path a i))\<rparr>"

subsection \<open>Data model\<close>

text \<open>
  Modelled from the spec: the data of section 3, as keymaster.js (missing) exchanges them.
\<close>

record 'b signature_block =
  signer :: did
  signed :: time
  sig_hash :: "'b canonical digest"
  sig_value :: "'b canonical digest sigvalue"

record 'b signable =
  body :: 'b
  signature :: "'b signature_block option"

text \<open>
  A verifiable credential. The specification's verification compares the schema of a
  credential with the schema a challenge asks for; \<open>vc_schema\<close> is the schema DID the
  credential was bound over.
\<close>

record vc_body =
  issuer :: did
  credentialSubject_id :: did
  vc_schema :: did
  credential :: string
  validFrom :: time

record requested =
  schema :: did
  attestors :: "did list"

record bound_challenge =
  challenge :: did
  challenge_from :: did
  challenge_to :: did
  challenge_validFrom :: time
  challenge_validUntil :: time

text \<open>A presentation: the bound challenge it answers and the pairs \<open>(vc, vp)\<close>.\<close>

record presentation =
  presented_challenge :: did
  credentials :: "(did \<times> did) list"

datatype json_value =
    VC_json "vc_body signable"
  | Challenge_json "bound_challenge signable"
  | Presentation_json presentation
  | Other_json string

datatype plaintext = Text string | Json "json_value canonical"

record envelope =
  sender :: did
  cipher_hash :: "plaintext digest"
  cipher_sender :: "plaintext ciphertext"
  cipher_receiver :: "plaintext ciphertext"

datatype payload =
    Envelope_data envelope
  | Schema_data string
  | Challenge_data "requested list"
  | Other_data string

subsection \<open>The registry (4.C)\<close>

text \<open>
  Modelled from the spec: the gatekeeper (gatekeeper.js is missing), by the contract of
  section 4.C. An operation is a signable object. Of the operation shape, the version and the
  anchoring registry (which does not influence the document) and \<open>prev\<close> (operations
  are applied one at a time) are left out.
\<close>

datatype op_kind = Create | Update | Deactivate

datatype mdip_type = Agent | Asset

record operation_body =
  op :: op_kind
  op_did :: "did option"
  op_type :: mdip_type
  op_publicJwk :: "jwk option"
  op_controller :: "did option"
  op_data :: "payload option"

type_synonym operation = "operation_body signable"

record entry =
  controller :: did
  entry_key :: "jwk option"
  entry_data :: "payload option"
  deactivated :: bool

record gatekeeper =
  content_hash :: "operation \<Rightarrow> did"
  entries :: "(did \<times> entry) list"

record did_document =
  document_id :: did
  document_controller :: did
  document_publicKeyJwk :: "jwk option"

record did_metadata =
  metadata_data :: "payload option"
  metadata_deactivated :: bool

record resolved =
  didDocument :: "did_document option"
  didDocumentMetadata :: did_metadata

text \<open>
  createDid names the operation by its content hash; an operation the registry already
  holds is deduplicated.
\<close>

definition createDid :: "gatekeeper \<Rightarrow> operation \<Rightarrow> error + (did \<times> gatekeeper)" where
  "createDid gk operation =
     (if op (body operation) \<noteq> Create then Inl RegistryUnavailable
      else
        (let d = content_hash gk operation in
         if map_of (entries gk) d \<noteq> None then Inr (d, gk)
         else
           (case op_type (body operation) of
              Agent \<Rightarrow>
                Inr (d, gk\<lparr>entries := entries gk @
                       [(d, \<lparr>controller = d, entry_key = op_publicJwk (body operation),
                             entry_data = None, deactivated = False\<rparr>)]\<rparr>)
            | Asset \<Rightarrow>
                (case op_controller (body operation) of
                   None \<Rightarrow> Inl RegistryUnavailable
                 | Some c \<Rightarrow>
                     Inr (d, gk\<lparr>entries := entries gk @
                            [(d, \<lparr>controller = c, entry_key = None,
                                  entry_data = op_data (body operation),
                                  deactivated = False\<rparr>)]\<rparr>)))))"

text \<open>
  resolveDid returns the current document or, for a deactivated DID, an empty
  \<open>didDocument\<close> with \<open>deactivated\<close> set in the metadata.
\<close>

definition resolveDid :: "gatekeeper \<Rightarrow> did \<Rightarrow> error + resolved" where
  "resolveDid gk d =
     (case map_of (entries gk) d of
        None \<Rightarrow> Inl RegistryUnavailable
      | Some e \<Rightarrow>
          if deactivated e
          then Inr \<lparr>didDocument = None,
                    didDocumentMetadata = \<lparr>metadata_data = None, metadata_deactivated = True\<rparr>\<rparr>
          else Inr \<lparr>didDocument = Some \<lparr>document_id = d, document_controller = controller e,
                                         document_publicKeyJwk = entry_key e\<rparr>,
                    didDocumentMetadata = \<lparr>metadata_data = entry_data e,
                                           metadata_deactivated = False\<rparr>\<rparr>)"

text \<open>The signature check of update and deactivate: against the key of the controller.\<close>

definition controller_signed :: "gatekeeper \<Rightarrow> did \<Rightarrow> operation \<Rightarrow> bool" where
  "controller_signed gk c operation =
     (case map_of (entries gk) c of
        None \<Rightarrow> False
      | Some ce \<Rightarrow>
          (case (entry_key ce, signature operation) of
             (Some k, Some sg) \<Rightarrow>
                verifySig (hashMessage (canonicalize (body operation))) (sig_value sg) k
           | _ \<Rightarrow> False))"

definition deleteDid :: "gatekeeper \<Rightarrow> operation \<Rightarrow> bool \<times> gatekeeper" where
  "deleteDid gk operation =
     (case (op (body operation), op_did (body operation)) of
        (Deactivate, Some d) \<Rightarrow>
          (case map_of (entries gk) d of
             None \<Rightarrow> (False, gk)
           | Some e \<Rightarrow>
               if deactivated e then (False, gk)
               else if controller_signed gk (controller e) operation
               then (True, gk\<lparr>entries := AList.update d (e\<lparr>deactivated := True\<rparr>) (entries gk)\<rparr>)
               else (False, gk))
      | _ \<Rightarrow> (False, gk))"

subsection \<open>The wallet and the current identity (3, 4.D)\<close>

text \<open>
  Modelled from the spec: the wallet and the identities of keymaster.js (missing), as
  section 3 describes them. \<open>km_current\<close> is empty when no identity is selected.
\<close>

record keymaster_identity =
  id_did :: did
  id_account :: nat
  id_index :: nat
  owned :: "did list"
  held :: "did list"

record keymaster_wallet =
  km_seed :: seed
  km_counter :: nat
  km_current :: string
  km_ids :: "(string \<times> keymaster_identity) list"
  km_names :: "(string \<times> did) list"

record keymaster =
  km_wallet :: keymaster_wallet
  km_registry :: gatekeeper

definition currentId :: "keymaster \<Rightarrow> error + keymaster_identity" where
  "currentId st =
     (if km_current (km_wallet st) = [] then Inl NoCurrentId
      else (case map_of (km_ids (km_wallet st)) (km_current (km_wallet st)) of
              None \<Rightarrow> Inl NoCurrentId
            | Some i \<Rightarrow> Inr i))"

definition keypair_at :: "keymaster \<Rightarrow> keymaster_identity \<Rightarrow> nat \<Rightarrow> jwk keypair" where
  "keypair_at st i n = deriveKeypair (hdkey (km_seed (km_wallet st))) (id_account i) n"

text \<open>An ordered set of DIDs: \<open>owned\<close> and \<open>held\<close>.\<close>

definition add_did :: "did \<Rightarrow> did list \<Rightarrow> did list" where
  "add_did d ds = (if d \<in> set ds then ds else ds @ [d])"

definition update_current ::
  "(keymaster_identity \<Rightarrow> keymaster_identity) \<Rightarrow> keymaster \<Rightarrow> keymaster" where
  "update_current f st =
     (let w = km_wallet st in
      case map_of (km_ids w) (km_current w) of
        None \<Rightarrow> st
      | Some i \<Rightarrow> st\<lparr>km_wallet := w\<lparr>km_ids := AList.update (km_current w) (f i) (km_ids w)\<rparr>\<rparr>)"

subsection \<open>Signing (4.E)\<close>

text \<open>
  Modelled from the spec: addSignature and verifySignature of keymaster.js (missing).
  Strip any signature, canonicalize, hash, sign, attach. The canonical text of the object
  without its signature is that of its body. The registry of section 4.C resolves the
  current document only, so verifySignature uses the signer's current key.
\<close>

definition sign_with :: "jwk \<Rightarrow> did \<Rightarrow> time \<Rightarrow> 'b signable \<Rightarrow> error + 'b signable" where
  "sign_with priv d now obj =
     (let msg = canonicalize (body obj);
          msgHash = hashMessage msg
      in bind_result (signHash msgHash priv) (\<lambda>v.
           Inr (obj\<lparr>signature :=
                  Some \<lparr>signer = d, signed = now, sig_hash = msgHash, sig_value = v\<rparr>\<rparr>)))"

definition addSignature :: "time \<Rightarrow> 'b signable option \<Rightarrow> keymaster \<Rightarrow> error + 'b signable" where
  "addSignature now obj st =
     bind_result (currentId st) (\<lambda>i.
       case obj of
         None \<Rightarrow> Inl InvalidInput
       | Some ob \<Rightarrow> sign_with (privateJwk (keypair_at st i (id_index i))) (id_did i) now ob)"

definition resolve_key :: "gatekeeper \<Rightarrow> did \<Rightarrow> error + jwk option" where
  "resolve_key gk d =
     bind_result (resolveDid gk d) (\<lambda>dc.
       Inr (case didDocument dc of None \<Rightarrow> None | Some dd \<Rightarrow> document_publicKeyJwk dd))"

definition verifySignature :: "'b signable option \<Rightarrow> keymaster \<Rightarrow> error + bool" where
  "verifySignature obj st =
     (case obj of
        None \<Rightarrow> Inr False
      | Some ob \<Rightarrow>
          (case signature ob of
             None \<Rightarrow> Inr False
           | Some sg \<Rightarrow>
               (let msg = canonicalize (body ob);
                    msgHash = hashMessage msg
                in bind_result (resolve_key (km_registry st) (signer sg)) (\<lambda>k.
                     case k of
                       None \<Rightarrow> Inr False
                     | Some pub \<Rightarrow> Inr (verifySig msgHash (sig_value sg) pub)))))"

subsection \<open>Identities (4.D)\<close>

text \<open>
  Modelled from the spec: createId and useId of keymaster.js (missing). They are named
  \<open>km_createId\<close> and \<open>km_useId\<close> here, next to the functions of kc.js.
\<close>

definition km_createId :: "time \<Rightarrow> string \<Rightarrow> keymaster \<Rightarrow> error + (did \<times> keymaster)" where
  "km_createId now name st =
     (let w = km_wallet st in
      if map_of (km_ids w) name \<noteq> None \<or> map_of (km_names w) name \<noteq> None
      then Inl (NameTaken name)
      else
        (let account = km_counter w;
             keypair = deriveKeypair (hdkey (km_seed w)) account 0;
             operation = \<lparr>body = \<lparr>op = Create, op_did = None, op_type = Agent,
                                   op_publicJwk = Some (publicJwk keypair),
                                   op_controller = None, op_data = None\<rparr>,
                          signature = None\<rparr>
         in bind_result (sign_with (privateJwk keypair) [] now operation) (\<lambda>signed_op.
            bind_result (createDid (km_registry st) signed_op) (\<lambda>(d, gk).
              Inr (d, \<lparr>km_wallet =
                         w\<lparr>km_ids := AList.update name
                                       \<lparr>id_did = d, id_account = account, id_index = 0,
                                        owned = [], held = []\<rparr> (km_ids w),
                           km_current := name,
                           km_counter := account + 1\<rparr>,
                       km_registry = gk\<rparr>)))))"

definition km_useId :: "string \<Rightarrow> keymaster \<Rightarrow> error + keymaster" where
  "km_useId name st =
     (if map_of (km_ids (km_wallet st)) name = None then Inl (NoSuchId name)
      else Inr (st\<lparr>km_wallet := (km_wallet st)\<lparr>km_current := name\<rparr>\<rparr>))"

subsection \<open>Data anchors, encrypt and decrypt (4.E)\<close>

text \<open>
  Modelled from the spec: createData, encrypt, decrypt, encryptJSON and decryptJSON of
  keymaster.js (missing); encrypt and decrypt are named \<open>km_encrypt\<close> and
  \<open>km_decrypt\<close>. An empty anchor is refused.
\<close>

definition createData :: "time \<Rightarrow> payload \<Rightarrow> keymaster \<Rightarrow> error + (did \<times> keymaster)" where
  "createData now anchor st =
     bind_result (currentId st) (\<lambda>i.
       if anchor = Other_data [] then Inl InvalidInput
       else
         bind_result (addSignature now
                        (Some \<lparr>body = \<lparr>op = Create, op_did = None, op_type = Asset,
                                        op_publicJwk = None, op_controller = Some (id_did i),
                                        op_data = Some anchor\<rparr>,
                               signature = None\<rparr>) st) (\<lambda>signed_op.
         bind_result (createDid (km_registry st) signed_op) (\<lambda>(d, gk).
           Inr (d, update_current (\<lambda>i. i\<lparr>owned := add_did d (owned i)\<rparr>)
                     (st\<lparr>km_registry := gk\<rparr>)))))"

definition resolve_publicJwk :: "gatekeeper \<Rightarrow> did \<Rightarrow> error + jwk" where
  "resolve_publicJwk gk d =
     bind_result (resolve_key gk d) (\<lambda>k.
       case k of None \<Rightarrow> Inl InvalidInput | Some pub \<Rightarrow> Inr pub)"

definition km_encrypt :: "time \<Rightarrow> plaintext \<Rightarrow> did \<Rightarrow> keymaster \<Rightarrow> error + (did \<times> keymaster)" where
  "km_encrypt now msg receiver st =
     bind_result (currentId st) (\<lambda>i.
       let keypair = keypair_at st i (id_index i) in
       bind_result (resolve_publicJwk (km_registry st) receiver) (\<lambda>pub.
       bind_result (encryptMessage (publicJwk keypair) (privateJwk keypair) msg) (\<lambda>cs.
       bind_result (encryptMessage pub (privateJwk keypair) msg) (\<lambda>cr.
         createData now
           (Envelope_data \<lparr>sender = id_did i, cipher_hash = hashMessage msg,
                           cipher_sender = cs, cipher_receiver = cr\<rparr>) st))))"

text \<open>
  The historical-key walk: try the key pair at the given index, and on failure the one
  before, down to index 0; then fail.
\<close>

fun decrypt_walk :: "(nat \<Rightarrow> jwk) \<Rightarrow> (nat \<Rightarrow> jwk) \<Rightarrow> 'p ciphertext \<Rightarrow> nat \<Rightarrow> error + 'p" where
  "decrypt_walk pub priv c 0 =
     (case decryptMessage (pub 0) (priv 0) c of
        Inr p \<Rightarrow> Inr p
      | Inl e \<Rightarrow> Inl DecryptionFailed)"
| "decrypt_walk pub priv c (Suc n) =
     (case decryptMessage (pub (Suc n)) (priv (Suc n)) c of
        Inr p \<Rightarrow> Inr p
      | Inl e \<Rightarrow> decrypt_walk pub priv c n)"

definition resolve_envelope :: "gatekeeper \<Rightarrow> did \<Rightarrow> error + envelope" where
  "resolve_envelope gk d =
     bind_result (resolveDid gk d) (\<lambda>dc.
       case metadata_data (didDocumentMetadata dc) of
         Some (Envelope_data e) \<Rightarrow> Inr e
       | _ \<Rightarrow> Inl InvalidInput)"

text \<open>
  The sender reads the copy sealed to itself, with its own key pair of the index tried;
  anyone else reads the receiver's copy, with the sender's resolved public key.
\<close>

definition open_envelope :: "envelope \<Rightarrow> keymaster_identity \<Rightarrow> keymaster \<Rightarrow> error + plaintext" where
  "open_envelope e i st =
     (if sender e = id_did i
      then decrypt_walk (\<lambda>n. publicJwk (keypair_at st i n)) (\<lambda>n. privateJwk (keypair_at st i n))
             (cipher_sender e) (id_index i)
      else bind_result (resolve_publicJwk (km_registry st) (sender e)) (\<lambda>pub.
             decrypt_walk (\<lambda>n. pub) (\<lambda>n. privateJwk (keypair_at st i n))
               (cipher_receiver e) (id_index i)))"

definition km_decrypt :: "did \<Rightarrow> keymaster \<Rightarrow> error + plaintext" where
  "km_decrypt d st =
     bind_result (currentId st) (\<lambda>i.
     bind_result (resolve_envelope (km_registry st) d) (\<lambda>e.
     bind_result (open_envelope e i st) (\<lambda>p.
       if hashMessage p = cipher_hash e then Inr p else Inl TamperedCiphertext)))"

definition encryptJSON :: "time \<Rightarrow> json_value \<Rightarrow> did \<Rightarrow> keymaster \<Rightarrow> error + (did \<times> keymaster)" where
  "encryptJSON now x receiver st = km_encrypt now (Json (canonicalize x)) receiver st"

definition decryptJSON :: "did \<Rightarrow> keymaster \<Rightarrow> error + json_value" where
  "decryptJSON d st =
     bind_result (km_decrypt d st) (\<lambda>p.
       case p of Json (Canonical x) \<Rightarrow> Inr x | Text _ \<Rightarrow> Inl InvalidInput)"

subsection \<open>The credential pipeline (4.E)\<close>

text \<open>
  Modelled from the spec: createCredential, bindCredential, attestCredential,
  acceptCredential and revokeCredential of keymaster.js (missing).
\<close>

definition createCredential :: "time \<Rightarrow> string \<Rightarrow> keymaster \<Rightarrow> error + (did \<times> keymaster)" where
  "createCredential now schema_json st = createData now (Schema_data schema_json) st"

text \<open>
  bindCredential fills the credential with sample data for the schema. How the sample is
  synthesised is open in the specification; it is a parameter.
\<close>

definition bindCredential ::
  "(string \<Rightarrow> string) \<Rightarrow> time \<Rightarrow> did \<Rightarrow> did \<Rightarrow> keymaster \<Rightarrow> error + vc_body signable" where
  "bindCredential sample now schemaDid subjectDid st =
     bind_result (currentId st) (\<lambda>i.
     bind_result (resolveDid (km_registry st) schemaDid) (\<lambda>dc.
       case metadata_data (didDocumentMetadata dc) of
         Some (Schema_data s) \<Rightarrow>
           Inr \<lparr>body = \<lparr>issuer = id_did i, credentialSubject_id = subjectDid,
                        vc_schema = schemaDid, credential = sample s, validFrom = now\<rparr>,
                signature = None\<rparr>
       | _ \<Rightarrow> Inl InvalidInput))"

definition attestCredential ::
  "time \<Rightarrow> vc_body signable \<Rightarrow> keymaster \<Rightarrow> error + (did \<times> keymaster)" where
  "attestCredential now vc st =
     bind_result (currentId st) (\<lambda>i.
       if issuer (body vc) \<noteq> id_did i then Inl InvalidVC
       else
         bind_result (addSignature now (Some vc) st) (\<lambda>signed_vc.
         bind_result (encryptJSON now (VC_json signed_vc) (credentialSubject_id (body vc)) st)
           (\<lambda>(d, st').
              Inr (d, update_current (\<lambda>i. i\<lparr>owned := add_did d (owned i)\<rparr>) st'))))"

text \<open>
  acceptCredential and revokeCredential answer false, and change nothing, when the
  credential cannot be read or fails a check.
\<close>

definition acceptCredential :: "did \<Rightarrow> keymaster \<Rightarrow> error + (bool \<times> keymaster)" where
  "acceptCredential vcDid st =
     bind_result (currentId st) (\<lambda>i.
       case decryptJSON vcDid st of
         Inr (VC_json vc) \<Rightarrow>
           if verifySignature (Some vc) st = Inr True
              \<and> credentialSubject_id (body vc) = id_did i
           then Inr (True, update_current (\<lambda>i. i\<lparr>held := add_did vcDid (held i)\<rparr>) st)
           else Inr (False, st)
       | _ \<Rightarrow> Inr (False, st))"

definition revokeCredential :: "time \<Rightarrow> did \<Rightarrow> keymaster \<Rightarrow> error + (bool \<times> keymaster)" where
  "revokeCredential now vcDid st =
     bind_result (currentId st) (\<lambda>i.
       case decryptJSON vcDid st of
         Inr (VC_json vc) \<Rightarrow>
           if issuer (body vc) \<noteq> id_did i then Inr (False, st)
           else
             bind_result (addSignature now
                            (Some \<lparr>body = \<lparr>op = Deactivate, op_did = Some vcDid, op_type = Asset,
                                            op_publicJwk = None, op_controller = None,
                                            op_data = None\<rparr>,
                                   signature = None\<rparr>) st) (\<lambda>signed_op.
               case deleteDid (km_registry st) signed_op of
                 (ok, gk) \<Rightarrow> Inr (ok, st\<lparr>km_registry := gk\<rparr>))
       | _ \<Rightarrow> Inr (False, st))"

subsection \<open>Challenge, response, verification (4.E)\<close>

text \<open>
  Modelled from the spec: createChallenge, issueChallenge, createResponse and
  verifyResponse of keymaster.js (missing). A bound challenge is valid for one hour.
\<close>

definition createChallenge ::
  "time \<Rightarrow> requested list \<Rightarrow> keymaster \<Rightarrow> error + (did \<times> keymaster)" where
  "createChallenge now ch st = createData now (Challenge_data ch) st"

definition resolve_challenge :: "gatekeeper \<Rightarrow> did \<Rightarrow> error + requested list" where
  "resolve_challenge gk d =
     bind_result (resolveDid gk d) (\<lambda>dc.
       case metadata_data (didDocumentMetadata dc) of
         Some (Challenge_data ch) \<Rightarrow> Inr ch
       | _ \<Rightarrow> Inl InvalidInput)"

definition issueChallenge ::
  "time \<Rightarrow> did \<Rightarrow> did \<Rightarrow> keymaster \<Rightarrow> error + (did \<times> keymaster)" where
  "issueChallenge now challengeDid subjectDid st =
     bind_result (currentId st) (\<lambda>i.
     bind_result (resolve_challenge (km_registry st) challengeDid) (\<lambda>ch.
     bind_result (addSignature now
                    (Some \<lparr>body = \<lparr>challenge = challengeDid, challenge_from = id_did i,
                                    challenge_to = subjectDid, challenge_validFrom = now,
                                    challenge_validUntil = now + 3600\<rparr>,
                           signature = None\<rparr>) st) (\<lambda>bound.
       encryptJSON now (Challenge_json bound) subjectDid st)))"

definition decrypt_challenge :: "did \<Rightarrow> keymaster \<Rightarrow> error + bound_challenge signable" where
  "decrypt_challenge d st =
     bind_result (decryptJSON d st) (\<lambda>x.
       case x of Challenge_json bc \<Rightarrow> Inr bc | _ \<Rightarrow> Inl InvalidInput)"

text \<open>
  createResponse: for a requested credential, the first held credential whose decrypted
  content has the schema asked for and an issuer among the attestors.
\<close>

definition held_match :: "requested \<Rightarrow> keymaster \<Rightarrow> did \<Rightarrow> bool" where
  "held_match req st h =
     (case decryptJSON h st of
        Inr (VC_json vc) \<Rightarrow>
          vc_schema (body vc) = schema req \<and> issuer (body vc) \<in> set (attestors req)
      | _ \<Rightarrow> False)"

fun respond_each ::
  "time \<Rightarrow> did \<Rightarrow> did list \<Rightarrow> requested list \<Rightarrow> keymaster
     \<Rightarrow> error + ((did \<times> did) list \<times> keymaster)" where
  "respond_each now verifier hs [] st = Inr ([], st)"
| "respond_each now verifier hs (req # reqs) st =
     (case find (held_match req st) hs of
        None \<Rightarrow> respond_each now verifier hs reqs st
      | Some h \<Rightarrow>
          bind_result (decryptJSON h st) (\<lambda>x.
          bind_result (encryptJSON now x verifier st) (\<lambda>(vp, st').
          bind_result (respond_each now verifier hs reqs st') (\<lambda>(pairs, st'').
            Inr ((h, vp) # pairs, st'')))))"

definition createResponse :: "time \<Rightarrow> did \<Rightarrow> keymaster \<Rightarrow> error + (did \<times> keymaster)" where
  "createResponse now boundChallengeDid st =
     bind_result (currentId st) (\<lambda>i.
     bind_result (decrypt_challenge boundChallengeDid st) (\<lambda>bc.
     bind_result (verifySignature (Some bc) st) (\<lambda>valid.
       if \<not> valid then Inl InvalidInput
       else
         bind_result (resolve_challenge (km_registry st) (challenge (body bc))) (\<lambda>ch.
         bind_result (respond_each now (challenge_from (body bc)) (held i) ch st) (\<lambda>(pairs, st').
           encryptJSON now
             (Presentation_json \<lparr>presented_challenge = boundChallengeDid, credentials = pairs\<rparr>)
             (challenge_from (body bc)) st')))))"

text \<open>
  verifyResponse: a pair \<open>(vc, vp)\<close> answers a requested credential when the \<open>vp\<close> copy
  decrypts to a credential whose signature verifies, whose schema is the one asked for and
  whose issuer is among the attestors, and the attestation \<open>vc\<close> resolves and is not
  deactivated.
\<close>

definition not_deactivated :: "gatekeeper \<Rightarrow> did \<Rightarrow> bool" where
  "not_deactivated gk d =
     (case resolveDid gk d of
        Inr dc \<Rightarrow> \<not> metadata_deactivated (didDocumentMetadata dc)
      | Inl e \<Rightarrow> False)"

definition verify_pair :: "keymaster \<Rightarrow> requested \<Rightarrow> did \<times> did \<Rightarrow> vc_body signable option" where
  "verify_pair st req pair =
     (case decryptJSON (snd pair) st of
        Inr (VC_json vc) \<Rightarrow>
          if verifySignature (Some vc) st = Inr True
             \<and> vc_schema (body vc) = schema req
             \<and> issuer (body vc) \<in> set (attestors req)
             \<and> not_deactivated (km_registry st) (fst pair)
          then Some vc else None
      | _ \<Rightarrow> None)"

fun first_verified ::
  "keymaster \<Rightarrow> requested \<Rightarrow> (did \<times> did) list \<Rightarrow> vc_body signable option" where
  "first_verified st req [] = None"
| "first_verified st req (pair # pairs) =
     (case verify_pair st req pair of
        Some vc \<Rightarrow> Some vc
      | None \<Rightarrow> first_verified st req pairs)"

definition verifyResponse :: "did \<Rightarrow> keymaster \<Rightarrow> error + vc_body signable list" where
  "verifyResponse vpDid st =
     bind_result (currentId st) (\<lambda>i.
     bind_result (decryptJSON vpDid st) (\<lambda>x.
       case x of
         Presentation_json p \<Rightarrow>
           bind_result (decrypt_challenge (presented_challenge p) st) (\<lambda>bc.
           bind_result (resolve_challenge (km_registry st) (challenge (body bc))) (\<lambda>ch.
             Inr (List.map_filter (\<lambda>req. first_verified st req (credentials p)) ch)))
       | _ \<Rightarrow> Inl InvalidInput))"

subsection \<open>A registry and a wallet for the scenarios\<close>

text \<open>
  A content hash for the examples: the kind of the operation's content followed by the
  time of its signature, in unary.
\<close>

definition content_kind :: "operation \<Rightarrow> string" where
  "content_kind operation =
     (case op_data (body operation) of
        None \<Rightarrow> ''agent''
      | Some (Schema_data s) \<Rightarrow> ''schema''
      | Some (Challenge_data c) \<Rightarrow> ''challenge''
      | Some (Other_data s) \<Rightarrow> ''data''
      | Some (Envelope_data e) \<Rightarrow>
          (case cipher_hash e of
             SHA256 (Text s) \<Rightarrow> ''message''
           | SHA256 (Json (Canonical (VC_json v))) \<Rightarrow> ''vc''
           | SHA256 (Json (Canonical (Challenge_json c))) \<Rightarrow> ''bound''
           | SHA256 (Json (Canonical (Presentation_json p))) \<Rightarrow> ''presentation''
           | SHA256 (Json (Canonical (Other_json s))) \<Rightarrow> ''json''))"

definition test_hash :: "operation \<Rightarrow> did" where
  "test_hash operation =
     ''did:mdip:'' @ content_kind operation @ ''-''
       @ replicate (case signature operation of None \<Rightarrow> 0 | Some sg \<Rightarrow> signed sg) (CHR ''i'')"

definition empty_keymaster :: keymaster where
  "empty_keymaster =
     \<lparr>km_wallet = \<lparr>km_seed = test_seed, km_counter = 0, km_current = [], km_ids = [],
                   km_names = []\<rparr>,
      km_registry = \<lparr>content_hash = test_hash, entries = []\<rparr>\<rparr>"

text \<open>Bob alone, after \<^verbatim>\<open>createId('Bob')\<close> on the empty wallet at time 1.\<close>

definition bob_keymaster :: keymaster where
  "bob_keymaster =
     \<lparr>km_wallet = \<lparr>km_seed = test_seed, km_counter = 1, km_current = ''Bob'',
                   km_ids = [(''Bob'', \<lparr>id_did = ''did:mdip:agent-i'', id_account = 0,
                                        id_index = 0, owned = [], held = []\<rparr>)],
                   km_names = []\<rparr>,
      km_registry = \<lparr>content_hash = test_hash,
                     entries = [(''did:mdip:agent-i'',
                                 \<lparr>controller = ''did:mdip:agent-i'',
                                  entry_key = Some (PublicJwk (test_key 0 0)),
                                  entry_data = None, deactivated = False\<rparr>)]\<rparr>\<rparr>"

text \<open>The envelope of the message with another plaintext sealed inside.\<close>

definition tampered_envelope :: envelope where
  "tampered_envelope =
     \<lparr>sender = ''did:mdip:agent-i'', cipher_hash = hashMessage (Text ''Hi Bob!''),
      cipher_sender = Sealed {test_key 0 0} (Text ''Hi Rob!''),
      cipher_receiver = Sealed {test_key 0 0} (Text ''Hi Rob!'')\<rparr>"

definition tampered_keymaster :: keymaster where
  "tampered_keymaster =
     bob_keymaster\<lparr>km_registry :=
       (km_registry bob_keymaster)\<lparr>entries := entries (km_registry bob_keymaster) @
          [(''did:mdip:tampered'',
            \<lparr>controller = ''did:mdip:agent-i'', entry_key = None,
             entry_data = Some (Envelope_data tampered_envelope), deactivated = False\<rparr>)]\<rparr>\<rparr>"

text \<open>The object that the tests sign.\<close>

definition mockJson :: "string signable" where
  "mockJson = \<lparr>body = ''{key: value, list: [1, 2, 3], obj: {name: some object}}'',
               signature = None\<rparr>"

text \<open>Bob issues himself a credential over a schema, as the tests of revokeCredential do.\<close>

definition bob_credential :: "error + (did \<times> keymaster)" where
  "bob_credential =
     bind_result (createCredential 2 ''email'' bob_keymaster) (\<lambda>(cred, st).
     bind_result (bindCredential (\<lambda>s. s) 3 cred ''did:mdip:agent-i'' st) (\<lambda>bc.
       attestCredential 4 bc st))"

text \<open>
  Scenario 5 of the specification: Alice issues a credential to Bob over a schema, Bob
  accepts it, Victor challenges Bob for that schema attested by Alice, and Bob responds.
  The result is the response DID, the attestation DID and the state with Victor current.
\<close>

definition response_scenario :: "error + (did \<times> did \<times> keymaster)" where
  "response_scenario =
     bind_result (km_createId 1 ''Alice'' empty_keymaster) (\<lambda>(alice, st).
     bind_result (km_createId 2 ''Bob'' st) (\<lambda>(bob, st).
     bind_result (km_createId 3 ''Victor'' st) (\<lambda>(victor, st).
     bind_result (km_useId ''Alice'' st) (\<lambda>st.
     bind_result (createCredential 4 ''email'' st) (\<lambda>(cred, st).
     bind_result (bindCredential (\<lambda>s. s) 5 cred bob st) (\<lambda>bc.
     bind_result (attestCredential 6 bc st) (\<lambda>(vcDid, st).
     bind_result (km_useId ''Bob'' st) (\<lambda>st.
     bind_result (acceptCredential vcDid st) (\<lambda>(ok, st).
     bind_result (km_useId ''Victor'' st) (\<lambda>st.
     bind_result (createChallenge 7 [\<lparr>schema = cred, attestors = [alice]\<rparr>] st) (\<lambda>(chDid, st).
     bind_result (issueChallenge 8 chDid bob st) (\<lambda>(bcDid, st).
     bind_result (km_useId ''Bob'' st) (\<lambda>st.
     bind_result (createResponse 9 bcDid st) (\<lambda>(vpDid, st).
     bind_result (km_useId ''Victor'' st) (\<lambda>st.
       Inr (vpDid, vcDid, st))))))))))))))))"

text \<open>The state that the scenario leads to, written out.\<close>

definition agent_entry :: "did \<Rightarrow> nat \<Rightarrow> did \<times> entry" where
  "agent_entry d a =
     (d, \<lparr>controller = d, entry_key = Some (PublicJwk (test_key a 0)), entry_data = None,
          deactivated = False\<rparr>)"

definition asset_entry :: "did \<Rightarrow> did \<Rightarrow> payload \<Rightarrow> did \<times> entry" where
  "asset_entry d c x =
     (d, \<lparr>controller = c, entry_key = None, entry_data = Some x, deactivated = False\<rparr>)"

definition sealed_json :: "did \<Rightarrow> nat \<Rightarrow> nat \<Rightarrow> json_value \<Rightarrow> payload" where
  "sealed_json s sa ra x =
     Envelope_data
       \<lparr>sender = s, cipher_hash = SHA256 (Json (Canonical x)),
        cipher_sender = Sealed {test_key sa 0} (Json (Canonical x)),
        cipher_receiver = Sealed {test_key ra 0, test_key sa 0} (Json (Canonical x))\<rparr>"

definition signed_by :: "did \<Rightarrow> nat \<Rightarrow> time \<Rightarrow> 'b \<Rightarrow> 'b signable" where
  "signed_by d a t b =
     \<lparr>body = b,
      signature = Some \<lparr>signer = d, signed = t, sig_hash = SHA256 (Canonical b),
                        sig_value = ECDSA (SHA256 (Canonical b)) (test_key a 0)\<rparr>\<rparr>"

definition test_vc :: json_value where
  "test_vc =
     VC_json (signed_by ''did:mdip:agent-i'' 0 6
       \<lparr>issuer = ''did:mdip:agent-i'', credentialSubject_id = ''did:mdip:agent-ii'',
        vc_schema = ''did:mdip:schema-iiii'', credential = ''email'', validFrom = 5\<rparr>)"

definition test_entries :: "(did \<times> entry) list" where
  "test_entries =
     [agent_entry ''did:mdip:agent-i'' 0,
      agent_entry ''did:mdip:agent-ii'' 1,
      agent_entry ''did:mdip:agent-iii'' 2,
      asset_entry ''did:mdip:schema-iiii'' ''did:mdip:agent-i'' (Schema_data ''email''),
      asset_entry ''did:mdip:vc-iiiiii'' ''did:mdip:agent-i''
        (sealed_json ''did:mdip:agent-i'' 0 1 test_vc),
      asset_entry ''did:mdip:challenge-iiiiiii'' ''did:mdip:agent-iii''
        (Challenge_data [\<lparr>schema = ''did:mdip:schema-iiii'', attestors = [''did:mdip:agent-i'']\<rparr>]),
      asset_entry ''did:mdip:bound-iiiiiiii'' ''did:mdip:agent-iii''
        (sealed_json ''did:mdip:agent-iii'' 2 1
           (Challenge_json (signed_by ''did:mdip:agent-iii'' 2 8
              \<lparr>challenge = ''did:mdip:challenge-iiiiiii'', challenge_from = ''did:mdip:agent-iii'',
               challenge_to = ''did:mdip:agent-ii'', challenge_validFrom = 8,
               challenge_validUntil = 3608\<rparr>))),
      asset_entry ''did:mdip:vc-iiiiiiiii'' ''did:mdip:agent-ii''
        (sealed_json ''did:mdip:agent-ii'' 1 2 test_vc),
      asset_entry ''did:mdip:presentation-iiiiiiiii'' ''did:mdip:agent-ii''
        (sealed_json ''did:mdip:agent-ii'' 1 2
           (Presentation_json
              \<lparr>presented_challenge = ''did:mdip:bound-iiiiiiii'',
               credentials = [(''did:mdip:vc-iiiiii'', ''did:mdip:vc-iiiiiiiii'')]\<rparr>))]"

definition test_ids :: "(string \<times> keymaster_identity) list" where
  "test_ids =
     [(''Alice'', \<lparr>id_did = ''did:mdip:agent-i'', id_account = 0, id_index = 0,
                   owned = [''did:mdip:schema-iiii'', ''did:mdip:vc-iiiiii''], held = []\<rparr>),
      (''Bob'', \<lparr>id_did = ''did:mdip:agent-ii'', id_account = 1, id_index = 0,
                 owned = [''did:mdip:vc-iiiiiiiii'', ''did:mdip:presentation-iiiiiiiii''],
                 held = [''did:mdip:vc-iiiiii'']\<rparr>),
      (''Victor'', \<lparr>id_did = ''did:mdip:agent-iii'', id_account = 2, id_index = 0,
                    owned = [''did:mdip:challenge-iiiiiii'', ''did:mdip:bound-iiiiiiii''],
                    held = []\<rparr>)]"

definition victor_keymaster :: keymaster where
  "victor_keymaster =
     \<lparr>km_wallet = \<lparr>km_seed = test_seed, km_counter = 3, km_current = ''Victor'',
                   km_ids = test_ids, km_names = []\<rparr>,
      km_registry = \<lparr>content_hash = test_hash, entries = test_entries\<rparr>\<rparr>"

subsection \<open>Notions for the statements\<close>

text \<open>
  The current identity controls a credential DID when it can read the envelope as a
  credential that names it as issuer, and the controller of the DID is registered with
  the identity's current public key (so that the registry accepts its signature).
\<close>

definition controls :: "keymaster \<Rightarrow> keymaster_identity \<Rightarrow> did \<Rightarrow> bool" where
  "controls st i d =
     ((case decryptJSON d st of
         Inr (VC_json vc) \<Rightarrow> issuer (body vc) = id_did i
       | _ \<Rightarrow> False)
      \<and> (case map_of (entries (km_registry st)) d of
            None \<Rightarrow> False
          | Some e \<Rightarrow>
              (case map_of (entries (km_registry st)) (controller e) of
                 None \<Rightarrow> False
               | Some ce \<Rightarrow> entry_key ce = Some (publicJwk (keypair_at st i (id_index i))))))"


section \<open>Verification of the command-line wallet\<close>

lemmas test_defs = test_state_def test_wallet_def test_registry_def alice_doc_def bob_doc_def
  test_key_def test_seed_def

subsection \<open>Error paths\<close>

text \<open>
  Claim C10. On their error paths the commands leave the wallet as it was: useId with a
  name that is not a key of \<open>ids\<close> changes neither the wallet in memory (so not
  \<open>current\<close>) nor wallet.json, and encrypt and decrypt without a current identity print
  their two lines and return. The state they return is the same for every environment,
  also for one whose key derivation and registry throw on every call: nothing was called
  before the return.
\<close>

theorem error_paths_leave_wallet:
  "(map_of (ids (wallet s)) name = None \<longrightarrow>
      wallet (snd (useId name s)) = wallet s \<and> wallet_json (snd (useId name s)) = wallet_json s)
   \<and> (no_current (wallet s) \<longrightarrow>
        encrypt env msg d s =
          (Inr None, s\<lparr>console := console s @
             [Line (''encrypt '' @ [CHR 0x22] @ msg @ [CHR 0x22] @ '' for '' @ d),
              Line ''No current ID'']\<rparr>)
        \<and> decrypt env c d s =
          (Inr None, s\<lparr>console := console s @
             [CipherLine (''decrypt '' @ [CHR 0x22]) c ([CHR 0x22] @ '' from '' @ d),
              Line ''No current ID'']\<rparr>))"
  by (simp add: useId_def hasOwnProperty_def encrypt_def decrypt_def console_log_def Let_def)

theorem error_paths_witness:
  "map_of (ids (wallet (test_state None 0))) ''Carol'' = None
   \<and> wallet (snd (useId ''Carol'' (test_state None 0))) = test_wallet None 0
   \<and> wallet_json (snd (useId ''Carol'' (test_state None 0))) = Some (test_wallet None 0)
   \<and> no_current (wallet (test_state None 0))
   \<and> wallet (snd (encrypt (node_env []) ''Hi Bob!'' ''did:mdip:bob'' (test_state None 0)))
       = test_wallet None 0
   \<and> wallet (snd (decrypt (node_env []) (Sealed {} ''x'') ''did:mdip:bob'' (test_state None 0)))
       = test_wallet None 0"
  using error_paths_leave_wallet [of "test_state None 0" "''Carol''" "node_env []" "''Hi Bob!''"
      "''did:mdip:bob''" "Sealed {} ''x''"]
  by (simp add: test_state_def test_wallet_def no_current_def)

subsection \<open>createId\<close>

text \<open>
  With a fresh name, and no global \<^verbatim>\<open>generateJwk\<close> in the host, createId throws at
  line 56 and leaves the state as it was: nothing is stored, counted or saved.
\<close>

lemma createId_undeclared_generateJwk:
  assumes "global_generateJwk env = None"
    and "hasOwnProperty (ids (wallet s)) name = Inr False"
    and "HDKey_derive env (hdkey (seed (wallet s))) (Path (counter (wallet s)) 0) = Inr didkey"
  shows "createId env name s = (Inl (ReferenceError ''generateJwk is not defined''), s)"
  using assms by (simp add: createId_def createId_did_def bind_result_def)




subsection \<open>The account invariant\<close>

lemma set_update_subset: "set (AList.update k v xs) \<subseteq> insert (k, v) (set xs)"
  by (induction xs) auto

lemma set_set_property: "set (set_property xs k v) \<subseteq> insert (k, v) (set xs)"
  using set_update_subset [of k v xs] by (auto simp: set_property_def)

lemma account_below_counter_created:
  "account_below_counter w \<Longrightarrow>
   account_below_counter
     (w\<lparr>ids := set_property (ids w) name \<lparr>did = d, doc = dc, account = counter w, index = 0\<rparr>,
        counter := Suc (counter w), current := Some name\<rparr>)"
proof -
  assume inv: "account_below_counter w"
  let ?i = "\<lparr>did = d, doc = dc, account = counter w, index = 0\<rparr>"
  have "\<And>n i. (n, i) \<in> set (set_property (ids w) name ?i) \<Longrightarrow> account i < Suc (counter w)"
  proof -
    fix n i
    assume "(n, i) \<in> set (set_property (ids w) name ?i)"
    then have "(n, i) = (name, ?i) \<or> (n, i) \<in> set (ids w)"
      using set_set_property [of "ids w" name ?i] by auto
    then show "account i < Suc (counter w)"
      using inv by (auto simp: account_below_counter_def)
  qed
  then show ?thesis by (auto simp: account_below_counter_def)
qed
lemma console_log_ok [simp]: "state_ok (console_log l s) = state_ok s"
  by (simp add: state_ok_def console_log_def)

lemma listIds_fold_ok:
  "state_ok (foldl (\<lambda>s' i. console_log (f i) s') s ks) = state_ok s"
  by (induction ks arbitrary: s) simp_all

lemma listIds_ok: "state_ok (listIds s) = state_ok s"
  by (simp add: listIds_def listIds_fold_ok)

lemma createId_ok: "state_ok s \<Longrightarrow> state_ok (snd (createId env name s))"
  by (auto simp: createId_def Let_def saveWallet_def state_ok_def console_log_def
      account_below_counter_created split: sum.splits prod.splits bool.splits)

lemma useId_ok: "state_ok s \<Longrightarrow> state_ok (snd (useId name s))"
  by (auto simp: useId_def Let_def saveWallet_def listIds_ok split: sum.splits bool.splits)
     (auto simp: state_ok_def account_below_counter_def)

lemma encrypt_ok: "state_ok s \<Longrightarrow> state_ok (snd (encrypt env msg d s))"
  by (auto simp: encrypt_def Let_def split: sum.splits)

lemma decrypt_ok: "state_ok s \<Longrightarrow> state_ok (snd (decrypt env c d s))"
  by (auto simp: decrypt_def Let_def split: sum.splits)

lemma startup_created_ok: "startup env None = Inr s \<Longrightarrow> state_ok s"
  by (auto simp: startup_def loadWallet_def initializeWallet_def Let_def saveWallet_def
      state_ok_def account_below_counter_def)

lemma startup_restarted_ok: "state_ok s \<Longrightarrow> startup env (wallet_json s) = Inr s' \<Longrightarrow> state_ok s'"
  by (cases "wallet_json s")
     (auto simp: startup_def loadWallet_def initializeWallet_def Let_def saveWallet_def
      state_ok_def account_below_counter_def)

lemma reachable_ok: "reachable env s \<Longrightarrow> state_ok s"
  by (induction rule: reachable.induct)
     (simp_all add: startup_created_ok startup_restarted_ok createId_ok listIds_ok useId_ok
       encrypt_ok decrypt_ok)

text \<open>
  Claim C4. In every state the wallet reaches, each identity's account is below the
  counter, in the wallet in memory and in the wallet that wallet.json holds. The wallet
  is created with no identity; createId gives a new identity the counter as its account
  and increments the counter; no other command changes \<open>ids\<close> or \<open>counter\<close>.
\<close>

theorem account_invariant:
  "reachable env s \<Longrightarrow>
     (\<forall>(n, i) \<in> set (ids (wallet s)). account i < counter (wallet s))
     \<and> (\<forall>w. wallet_json s = Some w \<longrightarrow> (\<forall>(n, i) \<in> set (ids w). account i < counter w))"
  using reachable_ok [of env s]
  by (auto simp: state_ok_def account_below_counter_def split: option.splits)

lemma startup_fresh: "startup (host_env R) None = Inr fresh_state"
  by (simp add: Let_def startup_def loadWallet_def initializeWallet_def saveWallet_def host_env_def
      node_env_def fresh_state_def fresh_wallet_def test_seed_def)

theorem account_invariant_witness:
  "reachable (host_env (test_registry 0))
     (snd (createId (host_env (test_registry 0)) ''Alice'' fresh_state))
   \<and> map (\<lambda>(n, i). (n, account i))
        (ids (wallet (snd (createId (host_env (test_registry 0)) ''Alice'' fresh_state))))
       = [(''Alice'', 0)]
   \<and> counter (wallet (snd (createId (host_env (test_registry 0)) ''Alice'' fresh_state))) = 1
   \<and> account_below_counter (wallet (snd (createId (host_env (test_registry 0)) ''Alice'' fresh_state)))"
proof -
  let ?E = "host_env (test_registry 0)"
  let ?s = "snd (createId ?E ''Alice'' fresh_state)"
  have r: "reachable ?E ?s"
    by (rule did_createId [OF created [OF startup_fresh]])
  have inv: "account_below_counter (wallet ?s)"
    using account_invariant [OF r] by (simp add: account_below_counter_def)
  have w: "createId_did ?E fresh_wallet = Inr (''did:mdip:alice'', alice_doc)"
    by (simp add: createId_did_def host_env_def node_env_def derive_skey_def generateJwk_def
        bind_result_def fresh_wallet_def test_defs)
  have "wallet ?s = fresh_wallet\<lparr>ids := [(''Alice'', \<lparr>did = ''did:mdip:alice'', doc = alice_doc,
                         account = 0, index = 0\<rparr>)], counter := 1, current := Some ''Alice''\<rparr>"
    using w by (simp add: createId_def hasOwnProperty_def set_property_def fresh_state_def
        console_log_def Let_def fresh_wallet_def)
  then show ?thesis using r inv by simp
qed

subsection \<open>The wallet that initializeWallet creates\<close>




text \<open>
  Claim C2, as amended. initializeWallet stores the generated mnemonic in
  \<open>seed.mnemonic\<close> as it is and writes that wallet to wallet.json: the stored value is the
  phrase the wallet was created from.
\<close>

theorem mnemonic_stored_as_generated:
  "initializeWallet env None = (r, file) \<Longrightarrow>
     (\<exists>w. r = Inr w \<and> file = Some w \<and> mnemonic (seed w) = bip39_generateMnemonic env)"
  by (auto simp: initializeWallet_def saveWallet_def Let_def)

theorem mnemonic_stored_as_generated_witness:
  "initializeWallet (node_env []) None = (Inr fresh_wallet, Some fresh_wallet)
   \<and> mnemonic (seed fresh_wallet) = bip39_generateMnemonic (node_env [])"
proof -
  have i: "initializeWallet (node_env []) None = (Inr fresh_wallet, Some fresh_wallet)"
    by (simp add: Let_def initializeWallet_def saveWallet_def node_env_def fresh_wallet_def test_seed_def)
  show ?thesis using mnemonic_stored_as_generated [OF i] i by simp
qed

text \<open>
  Against claim C2 as stated: the stored \<open>seed.mnemonic\<close> does not differ from the
  plaintext phrase.
\<close>

theorem mnemonic_plaintext_counterexample:
  "map_sum id (\<lambda>w. mnemonic (seed w)) (fst (initializeWallet (node_env []) None))
     = Inr test_mnemonic
   \<and> bip39_generateMnemonic (node_env []) = test_mnemonic"
  by (simp add: initializeWallet_def saveWallet_def node_env_def Let_def)

subsection \<open>decrypt after a key rotation\<close>




section \<open>Verification of the keymaster operations\<close>

lemma bind_result_simps [simp]:
  "bind_result (Inl e) f = Inl e"
  "bind_result (Inr x) f = f x"
  by (simp_all add: bind_result_def)

lemma bind_result_Inr:
  "bind_result r f = Inr y \<Longrightarrow> \<exists>x. r = Inr x \<and> f x = Inr y"
  by (cases r) simp_all

lemma registry_update_current [simp]: "km_registry (update_current f st) = km_registry st"
  by (simp add: update_current_def Let_def split: option.splits)

lemma createDid_asset_fresh:
  assumes "createDid gk operation = Inr (d, gk')"
    and "map_of (entries gk) d = None"
    and "op_type (body operation) = Asset"
  shows "\<exists>c. op_controller (body operation) = Some c
           \<and> map_of (entries gk') d
               = Some \<lparr>controller = c, entry_key = None,
                       entry_data = op_data (body operation), deactivated = False\<rparr>"
  using assms
  by (auto simp: createDid_def Let_def map_add_def split: if_splits option.splits)

lemma createData_fresh:
  assumes "createData now anchor st = Inr (d, st')"
    and "map_of (entries (km_registry st)) d = None"
  shows "\<exists>c. map_of (entries (km_registry st')) d
           = Some \<lparr>controller = c, entry_key = None, entry_data = Some anchor,
                   deactivated = False\<rparr>"
proof -
  from assms(1) obtain i where i: "currentId st = Inr i"
    by (auto simp: createData_def dest!: bind_result_Inr)
  let ?body = "\<lparr>op = Create, op_did = None, op_type = Asset, op_publicJwk = None,
                 op_controller = Some (id_did i), op_data = Some anchor\<rparr>"
  from assms(1) i obtain sop gk where
    s: "addSignature now (Some \<lparr>body = ?body, signature = None\<rparr>) st = Inr sop"
    and c: "createDid (km_registry st) sop = Inr (d, gk)"
    and st': "st' = update_current (\<lambda>i. i\<lparr>owned := add_did d (owned i)\<rparr>) (st\<lparr>km_registry := gk\<rparr>)"
    by (auto simp: createData_def split: if_splits dest!: bind_result_Inr)
  from s i have b: "body sop = ?body"
    by (auto simp: addSignature_def sign_with_def Let_def dest!: bind_result_Inr)
  from createDid_asset_fresh [OF c assms(2)] b st' show ?thesis by auto
qed

lemmas cipher_defs = canonicalize_def hashMessage_def signHash_def verifySig_def deriveKeypair_def
  encryptMessage_def decryptMessage_def shared_secret_def

lemmas registry_defs = createDid_def resolveDid_def controller_signed_def deleteDid_def
  content_kind_def test_hash_def

lemmas keymaster_defs = currentId_def keypair_at_def add_did_def update_current_def sign_with_def
  addSignature_def resolve_key_def verifySignature_def km_createId_def km_useId_def
  createData_def resolve_publicJwk_def km_encrypt_def resolve_envelope_def open_envelope_def
  km_decrypt_def encryptJSON_def decryptJSON_def

lemmas credential_defs = createCredential_def bindCredential_def attestCredential_def
  acceptCredential_def revokeCredential_def createChallenge_def resolve_challenge_def
  issueChallenge_def decrypt_challenge_def held_match_def createResponse_def not_deactivated_def
  verify_pair_def verifyResponse_def


lemma createId_Bob: "km_createId 1 ''Bob'' empty_keymaster = Inr (''did:mdip:agent-i'', bob_keymaster)"
  by (simp add: keymaster_defs cipher_defs registry_defs empty_keymaster_def bob_keymaster_def
      test_seed_def test_key_def Let_def)

subsection \<open>Envelopes and their hash\<close>

text \<open>
  The walk through the historical keys returns the plaintext as soon as a key pair at or
  below the starting index opens the ciphertext, and fails with DecryptionFailed only
  when none does.
\<close>

lemma decryptMessage_plaintext:
  "decryptMessage pub priv (Sealed k p) = Inr p' \<Longrightarrow> p' = p"
  by (auto simp: decryptMessage_def shared_secret_def split: jwk.splits if_splits)

lemma decrypt_walk_finds:
  "i \<le> n \<Longrightarrow> decryptMessage (pub i) (priv i) (Sealed k p) = Inr p \<Longrightarrow>
     decrypt_walk pub priv (Sealed k p) n = Inr p"
proof (induction n)
  case 0
  then show ?case by simp
next
  case (Suc n)
  show ?case
  proof (cases "decryptMessage (pub (Suc n)) (priv (Suc n)) (Sealed k p)")
    case (Inr p')
    with decryptMessage_plaintext [OF Inr] show ?thesis by simp
  next
    case (Inl e)
    with Suc have "i \<le> n" by (cases "i = Suc n") auto
    with Suc Inl show ?thesis by simp
  qed
qed

lemma decrypt_walk_fails:
  "decrypt_walk pub priv c n = Inl e \<Longrightarrow>
     e = DecryptionFailed \<and> (\<forall>i \<le> n. \<exists>e'. decryptMessage (pub i) (priv i) c = Inl e')"
proof (induction n)
  case 0
  then show ?case by (auto split: sum.splits)
next
  case (Suc n)
  then show ?case by (auto split: sum.splits simp: le_Suc_eq)
qed

text \<open>
  Claim C7. An envelope that encrypt adds to the registry carries, as \<open>cipher_hash\<close>, the
  SHA-256 hash of the plaintext. Whenever decrypt returns a plaintext, the hash of that
  plaintext is the envelope's \<open>cipher_hash\<close>; and when the envelope opens to a
  plaintext, decrypt returns it if its hash is the envelope's \<open>cipher_hash\<close> and fails
  with TamperedCiphertext otherwise.
\<close>

theorem envelope_hash_checked:
  "(km_encrypt now msg receiver st = Inr (d, st')
      \<and> map_of (entries (km_registry st)) d = None
      \<longrightarrow> (\<exists>e. resolve_envelope (km_registry st') d = Inr e \<and> cipher_hash e = hashMessage msg))
   \<and> (km_decrypt d st = Inr p
      \<longrightarrow> (\<exists>e. resolve_envelope (km_registry st) d = Inr e \<and> hashMessage p = cipher_hash e))
   \<and> (currentId st = Inr i \<and> resolve_envelope (km_registry st) d = Inr e
        \<and> open_envelope e i st = Inr p
      \<longrightarrow> km_decrypt d st
            = (if hashMessage p = cipher_hash e then Inr p else Inl TamperedCiphertext))"
proof (intro conjI impI)
  assume a: "km_encrypt now msg receiver st = Inr (d, st') \<and> map_of (entries (km_registry st)) d = None"
  then have "\<exists>s cs cr.
    createData now (Envelope_data \<lparr>sender = s, cipher_hash = hashMessage msg,
        cipher_sender = cs, cipher_receiver = cr\<rparr>) st = Inr (d, st')"
    unfolding km_encrypt_def Let_def by (blast dest!: bind_result_Inr)
  then obtain s cs cr where
    "createData now (Envelope_data \<lparr>sender = s, cipher_hash = hashMessage msg,
        cipher_sender = cs, cipher_receiver = cr\<rparr>) st = Inr (d, st')"
    by blast
  from createData_fresh [OF this] a
  show "\<exists>e. resolve_envelope (km_registry st') d = Inr e \<and> cipher_hash e = hashMessage msg"
    by (auto simp: resolve_envelope_def resolveDid_def)
next
  assume "km_decrypt d st = Inr p"
  then show "\<exists>e. resolve_envelope (km_registry st) d = Inr e \<and> hashMessage p = cipher_hash e"
    by (auto simp: km_decrypt_def split: if_splits dest!: bind_result_Inr)
next
  assume "currentId st = Inr i \<and> resolve_envelope (km_registry st) d = Inr e
        \<and> open_envelope e i st = Inr p"
  then show "km_decrypt d st
               = (if hashMessage p = cipher_hash e then Inr p else Inl TamperedCiphertext)"
    by (simp add: km_decrypt_def)
qed

theorem envelope_hash_checked_witness:
  "(case km_encrypt 2 (Text ''Hi Bob!'') ''did:mdip:agent-i'' bob_keymaster of
      Inr (d, st') \<Rightarrow>
        map_of (entries (km_registry bob_keymaster)) d = None
        \<and> map_sum id cipher_hash (resolve_envelope (km_registry st') d)
            = Inr (hashMessage (Text ''Hi Bob!''))
        \<and> km_decrypt d st' = Inr (Text ''Hi Bob!'')
    | Inl e \<Rightarrow> False)
   \<and> km_decrypt ''did:mdip:tampered'' tampered_keymaster = Inl TamperedCiphertext"
proof -
  let ?i = "\<lparr>id_did = ''did:mdip:agent-i'', id_account = 0, id_index = 0, owned = [], held = []\<rparr>"
  have "\<exists>st'. km_encrypt 2 (Text ''Hi Bob!'') ''did:mdip:agent-i'' bob_keymaster
               = Inr (''did:mdip:message-ii'', st')
             \<and> km_decrypt ''did:mdip:message-ii'' st' = Inr (Text ''Hi Bob!'')"
    by (simp add: keymaster_defs cipher_defs registry_defs bob_keymaster_def test_seed_def
        test_key_def Let_def eval_nat_numeral)
  then obtain st' where
    e: "km_encrypt 2 (Text ''Hi Bob!'') ''did:mdip:agent-i'' bob_keymaster
          = Inr (''did:mdip:message-ii'', st')"
    and dec: "km_decrypt ''did:mdip:message-ii'' st' = Inr (Text ''Hi Bob!'')"
    by blast
  have fresh: "map_of (entries (km_registry bob_keymaster)) ''did:mdip:message-ii'' = None"
    by (simp add: bob_keymaster_def)
  have t: "currentId tampered_keymaster = Inr ?i"
    "resolve_envelope (km_registry tampered_keymaster) ''did:mdip:tampered'' = Inr tampered_envelope"
    "open_envelope tampered_envelope ?i tampered_keymaster = Inr (Text ''Hi Rob!'')"
    "hashMessage (Text ''Hi Rob!'') \<noteq> cipher_hash tampered_envelope"
    by (simp_all add: keymaster_defs cipher_defs registry_defs tampered_keymaster_def
        tampered_envelope_def bob_keymaster_def test_seed_def test_key_def)
  from envelope_hash_checked
         [of 2 "Text ''Hi Bob!''" "''did:mdip:agent-i''" bob_keymaster "''did:mdip:message-ii''" st'
             "Text ''Hi Bob!''" ?i tampered_envelope]
       envelope_hash_checked
         [of 2 "Text ''Hi Bob!''" "''did:mdip:agent-i''" tampered_keymaster "''did:mdip:tampered''" st'
             "Text ''Hi Rob!''" ?i tampered_envelope]
       e dec fresh t
  show ?thesis by auto
qed

subsection \<open>Signatures\<close>

text \<open>
  Claim C6. With a current identity whose DID the registry lists with its current public
  key, addSignature succeeds on every object and verifySignature accepts the result.
  verifySignature answers false, and does not fail, when the body of the signed object is
  changed, when the value of the signature is changed, for a null argument and for an
  object without signature.
\<close>

theorem signature_verifies:
  assumes "currentId st = Inr i"
    and "resolve_key (km_registry st) (id_did i)
           = Inr (Some (publicJwk (keypair_at st i (id_index i))))"
  shows "\<exists>sobj sg.
           addSignature now (Some obj) st = Inr sobj
           \<and> body sobj = body obj \<and> signature sobj = Some sg
           \<and> verifySignature (Some sobj) st = Inr True
           \<and> (\<forall>b'. b' \<noteq> body obj \<longrightarrow> verifySignature (Some (sobj\<lparr>body := b'\<rparr>)) st = Inr False)
           \<and> (\<forall>v'. v' \<noteq> sig_value sg \<longrightarrow>
                 verifySignature (Some (sobj\<lparr>signature := Some (sg\<lparr>sig_value := v'\<rparr>)\<rparr>)) st
                   = Inr False)
           \<and> verifySignature (None :: 'a signable option) st = Inr False
           \<and> verifySignature (Some (obj\<lparr>signature := None\<rparr>)) st = Inr False"
proof -
  let ?k = "SKey (xpriv (hdkey (km_seed (km_wallet st)))) (Path (id_account i) (id_index i))"
  let ?h = "hashMessage (canonicalize (body obj))"
  let ?sg = "\<lparr>signer = id_did i, signed = now, sig_hash = ?h, sig_value = ECDSA ?h ?k\<rparr>"
  let ?sobj = "obj\<lparr>signature := Some ?sg\<rparr>"
  have pub: "publicJwk (keypair_at st i (id_index i)) = PublicJwk ?k"
    by (simp add: keypair_at_def deriveKeypair_def)
  have a: "addSignature now (Some obj) st = Inr ?sobj"
    using assms(1)
    by (simp add: addSignature_def sign_with_def signHash_def keypair_at_def deriveKeypair_def
        Let_def)
  have v: "verifySignature (Some ?sobj) st = Inr True"
    using assms(2) by (simp add: verifySignature_def verifySig_def pub Let_def)
  have m1: "\<And>b'. b' \<noteq> body obj \<Longrightarrow> verifySignature (Some (?sobj\<lparr>body := b'\<rparr>)) st = Inr False"
    using assms(2)
    by (simp add: verifySignature_def verifySig_def pub Let_def hashMessage_def canonicalize_def)
  have m2: "\<And>v'. v' \<noteq> sig_value ?sg \<Longrightarrow>
      verifySignature (Some (?sobj\<lparr>signature := Some (?sg\<lparr>sig_value := v'\<rparr>)\<rparr>)) st = Inr False"
    using assms(2) by (simp add: verifySignature_def verifySig_def pub Let_def)
  have n: "verifySignature (None :: 'a signable option) st = Inr False"
    "verifySignature (Some (obj\<lparr>signature := None\<rparr>)) st = Inr False"
    by (simp_all add: verifySignature_def)
  show ?thesis
    apply (rule exI [of _ ?sobj])
    apply (rule exI [of _ ?sg])
    using a v m1 m2 n by simp
qed

theorem signature_verifies_witness:
  "currentId bob_keymaster
     = Inr \<lparr>id_did = ''did:mdip:agent-i'', id_account = 0, id_index = 0, owned = [], held = []\<rparr>
   \<and> resolve_key (km_registry bob_keymaster) ''did:mdip:agent-i''
       = Inr (Some (PublicJwk (test_key 0 0)))
   \<and> (case addSignature 2 (Some mockJson) bob_keymaster of
         Inr sobj \<Rightarrow>
           verifySignature (Some sobj) bob_keymaster = Inr True
           \<and> verifySignature (Some (sobj\<lparr>body := ''{key: other}''\<rparr>)) bob_keymaster = Inr False
           \<and> verifySignature
                (Some (sobj\<lparr>signature := map_option (sig_value_update
                         (\<lambda>v. ECDSA (hashMessage (canonicalize (body mockJson))) (test_key 0 1)))
                         (signature sobj)\<rparr>)) bob_keymaster = Inr False
       | Inl e \<Rightarrow> False)
   \<and> verifySignature (Some mockJson) bob_keymaster = Inr False"
proof -
  let ?i = "\<lparr>id_did = ''did:mdip:agent-i'', id_account = 0, id_index = 0, owned = [], held = []\<rparr>"
  have c: "currentId bob_keymaster = Inr ?i"
    by (simp add: currentId_def bob_keymaster_def)
  have k: "publicJwk (keypair_at bob_keymaster ?i (id_index ?i)) = PublicJwk (test_key 0 0)"
    by (simp add: keypair_at_def deriveKeypair_def bob_keymaster_def test_seed_def test_key_def)
  have r: "resolve_key (km_registry bob_keymaster) (id_did ?i)
             = Inr (Some (publicJwk (keypair_at bob_keymaster ?i (id_index ?i))))"
    unfolding k by (simp add: resolve_key_def resolveDid_def bob_keymaster_def)
  from signature_verifies [OF c r, of 2 mockJson]
  obtain sobj sg where s:
    "addSignature 2 (Some mockJson) bob_keymaster = Inr sobj"
    "signature sobj = Some sg"
    "verifySignature (Some sobj) bob_keymaster = Inr True"
    "\<And>b'. b' \<noteq> body mockJson \<Longrightarrow> verifySignature (Some (sobj\<lparr>body := b'\<rparr>)) bob_keymaster = Inr False"
    "\<And>v'. v' \<noteq> sig_value sg \<Longrightarrow>
       verifySignature (Some (sobj\<lparr>signature := Some (sg\<lparr>sig_value := v'\<rparr>)\<rparr>)) bob_keymaster = Inr False"
    "verifySignature (Some (mockJson\<lparr>signature := None\<rparr>)) bob_keymaster = Inr False"
    by blast
  have sv: "sig_value sg = ECDSA (hashMessage (canonicalize (body mockJson))) (test_key 0 0)"
    using s(1,2) c
    by (auto simp: addSignature_def sign_with_def signHash_def keypair_at_def deriveKeypair_def
        Let_def bob_keymaster_def test_seed_def test_key_def)
  have ne: "ECDSA (hashMessage (canonicalize (body mockJson))) (test_key 0 1) \<noteq> sig_value sg"
    by (simp add: sv test_key_def)
  have b: "''{key: other}'' \<noteq> body mockJson" by (simp add: mockJson_def)
  have m: "mockJson\<lparr>signature := None\<rparr> = mockJson" by (simp add: mockJson_def)
  show ?thesis
    using c r k s(1,2,3) s(4) [OF b] s(5) [OF ne] s(6) by (simp add: m)
qed

subsection \<open>Revocation\<close>

lemma resolve_envelope_live:
  "resolve_envelope gk d = Inr e \<Longrightarrow> \<exists>en. map_of (entries gk) d = Some en \<and> \<not> deactivated en"
  by (auto simp: resolve_envelope_def resolveDid_def split: option.splits if_splits
      dest!: bind_result_Inr)

lemma decryptJSON_live:
  "decryptJSON d st = Inr x \<Longrightarrow>
     \<exists>en. map_of (entries (km_registry st)) d = Some en \<and> \<not> deactivated en"
  by (auto simp: decryptJSON_def km_decrypt_def dest!: bind_result_Inr resolve_envelope_live)

lemma decryptJSON_deactivated:
  "map_of (entries (km_registry st)) d = Some en \<Longrightarrow> deactivated en \<Longrightarrow>
     \<exists>err. decryptJSON d st = Inl err"
  using decryptJSON_live [of d st] by (cases "decryptJSON d st") auto

lemma verifySig_ECDSA: "verifySig h (ECDSA h k) pub = (pub = PublicJwk k)"
  by (cases pub) (auto simp: verifySig_def)

lemma addSignature_current:
  "currentId st = Inr i \<Longrightarrow>
     addSignature now (Some obj) st
       = Inr (obj\<lparr>signature := Some \<lparr>signer = id_did i, signed = now,
                sig_hash = hashMessage (canonicalize (body obj)),
                sig_value = ECDSA (hashMessage (canonicalize (body obj)))
                  (SKey (xpriv (hdkey (km_seed (km_wallet st))))
                     (Path (id_account i) (id_index i)))\<rparr>\<rparr>)"
  by (simp add: addSignature_def sign_with_def signHash_def keypair_at_def deriveKeypair_def Let_def)

lemma publicJwk_keypair_at:
  "publicJwk (keypair_at st i n)
     = PublicJwk (SKey (xpriv (hdkey (km_seed (km_wallet st)))) (Path (id_account i) n))"
  by (simp add: keypair_at_def deriveKeypair_def)

lemma map_of_update_same: "map_of (AList.update k v xs) k = Some v"
  by (simp add: update_conv')

lemma currentId_registry [simp]: "currentId (st\<lparr>km_registry := gk\<rparr>) = currentId st"
  by (simp add: currentId_def)

text \<open>
  Claim C8. With a current identity, revokeCredential returns true exactly when that
  identity controls the credential, which is then not yet deactivated. After a true
  answer the credential DID resolves to an empty didDocument with \<open>deactivated\<close> set,
  the wallet is as before, and a second revocation returns false. revokeCredential
  returns false, and changes nothing, when the credential is already deactivated or is
  not controlled by the current identity.
\<close>

theorem revokeCredential_result:
  assumes cur: "currentId st = Inr i"
  shows "\<exists>st'. revokeCredential now d st = Inr (controls st i d, st')
           \<and> (controls st i d \<longrightarrow>
                 resolveDid (km_registry st') d
                   = Inr \<lparr>didDocument = None,
                          didDocumentMetadata = \<lparr>metadata_data = None,
                                                 metadata_deactivated = True\<rparr>\<rparr>
                 \<and> km_wallet st' = km_wallet st
                 \<and> revokeCredential later d st' = Inr (False, st'))
           \<and> (\<not> controls st i d \<longrightarrow> st' = st)
           \<and> ((\<exists>e. map_of (entries (km_registry st)) d = Some e \<and> deactivated e)
                 \<longrightarrow> \<not> controls st i d)"
proof -
  have dead: "(\<exists>e. map_of (entries (km_registry st)) d = Some e \<and> deactivated e)
                 \<longrightarrow> \<not> controls st i d"
    using decryptJSON_deactivated [of st d] by (auto simp: controls_def)
  show ?thesis
  proof (cases "\<exists>vc. decryptJSON d st = Inr (VC_json vc) \<and> issuer (body vc) = id_did i")
    case False
    then have nc: "\<not> controls st i d"
      by (auto simp: controls_def split: sum.splits json_value.splits)
    from False cur have "revokeCredential now d st = Inr (False, st)"
      by (auto simp: revokeCredential_def split: sum.splits json_value.splits)
    with nc dead show ?thesis by auto
  next
    case True
    then obtain vc where vc: "decryptJSON d st = Inr (VC_json vc)" "issuer (body vc) = id_did i"
      by blast
    from decryptJSON_live [OF vc(1)] obtain en where
      en: "map_of (entries (km_registry st)) d = Some en" "\<not> deactivated en"
      by blast
    let ?gk = "km_registry st"
    let ?ok = "case map_of (entries ?gk) (controller en) of None \<Rightarrow> False
               | Some ce \<Rightarrow> entry_key ce = Some (publicJwk (keypair_at st i (id_index i)))"
    have c: "controls st i d = ?ok"
      using vc en by (simp add: controls_def)
    let ?gk' = "?gk\<lparr>entries := AList.update d (en\<lparr>deactivated := True\<rparr>) (entries ?gk)\<rparr>"
    let ?st' = "if ?ok then st\<lparr>km_registry := ?gk'\<rparr> else st"
    have r: "revokeCredential now d st = Inr (?ok, ?st')"
      using vc en cur
      by (auto simp: revokeCredential_def addSignature_current deleteDid_def controller_signed_def
          verifySig_ECDSA publicJwk_keypair_at split: option.splits)
    have after: "?ok \<Longrightarrow> resolveDid (km_registry ?st') d
                   = Inr \<lparr>didDocument = None,
                          didDocumentMetadata = \<lparr>metadata_data = None,
                                                 metadata_deactivated = True\<rparr>\<rparr>"
      by (simp add: resolveDid_def map_of_update_same)
    have again: "?ok \<Longrightarrow> revokeCredential later d ?st' = Inr (False, ?st')"
    proof -
      assume ok: ?ok
      have "map_of (entries (km_registry ?st')) d = Some (en\<lparr>deactivated := True\<rparr>)"
        using ok by (simp add: map_of_update_same)
      from decryptJSON_deactivated [OF this] obtain err where "decryptJSON d ?st' = Inl err"
        by auto
      then show ?thesis using cur ok by (simp add: revokeCredential_def)
    qed
    show ?thesis
      apply (rule exI [of _ ?st'])
      using r c after again dead by auto
  qed
qed

theorem revokeCredential_result_witness:
  "(case bob_credential of
      Inr (vcDid, st) \<Rightarrow>
        (case revokeCredential 5 vcDid st of
           Inr (ok, st') \<Rightarrow>
             ok
             \<and> map_sum id didDocument (resolveDid (km_registry st') vcDid) = Inr None
             \<and> map_sum id (\<lambda>dc. metadata_deactivated (didDocumentMetadata dc))
                  (resolveDid (km_registry st') vcDid) = Inr True
             \<and> map_sum id fst (revokeCredential 6 vcDid st') = Inr False
         | Inl e \<Rightarrow> False)
    | Inl e \<Rightarrow> False)"
proof -
  let ?i = "\<lparr>id_did = ''did:mdip:agent-i'', id_account = 0, id_index = 0,
             owned = [''did:mdip:schema-ii'', ''did:mdip:vc-iiii''], held = []\<rparr>"
  have "\<exists>st. bob_credential = Inr (''did:mdip:vc-iiii'', st) \<and> currentId st = Inr ?i
              \<and> controls st ?i ''did:mdip:vc-iiii''"
    by (simp add: bob_credential_def credential_defs keymaster_defs cipher_defs registry_defs
        controls_def bob_keymaster_def test_seed_def test_key_def Let_def eval_nat_numeral)
  then obtain st where st: "bob_credential = Inr (''did:mdip:vc-iiii'', st)"
    "currentId st = Inr ?i" "controls st ?i ''did:mdip:vc-iiii''"
    by blast
  from revokeCredential_result [OF st(2), of 5 "''did:mdip:vc-iiii''" 6] st(3)
  obtain st' where r:
    "revokeCredential 5 ''did:mdip:vc-iiii'' st = Inr (True, st')"
    "resolveDid (km_registry st') ''did:mdip:vc-iiii''
       = Inr \<lparr>didDocument = None,
              didDocumentMetadata = \<lparr>metadata_data = None, metadata_deactivated = True\<rparr>\<rparr>"
    "revokeCredential 6 ''did:mdip:vc-iiii'' st' = Inr (False, st')"
    by auto
  show ?thesis by (simp add: st(1) r)
qed

subsection \<open>Verifying a response\<close>















lemma keypair_at_registry [simp]: "keypair_at (st\<lparr>km_registry := gk\<rparr>) = keypair_at st"
  by (simp add: keypair_at_def fun_eq_iff)

















text \<open>The states written out are the ones the operations of the scenario produce.\<close>

lemma response_scenario_state:
  "map_sum id (\<lambda>(vp, vc, st). (vp, vc, km_wallet st, entries (km_registry st))) response_scenario
     = Inr (''did:mdip:presentation-iiiiiiiii'', ''did:mdip:vc-iiiiii'',
            km_wallet victor_keymaster, entries (km_registry victor_keymaster))"
  by code_simp

end
